theory Spec2Isabelle
  imports Main "HOL-Library.Multiset"
begin

section \<open>Data model\<close>

text \<open>
  The package \<open>endpoint\<close> declares \<open>Endpoint\<close> and \<open>EndpointSet\<close>; the plan and the
  registry only read their fields. The fields read by the code are kept, prefixed with
  \<open>ep_\<close> and \<open>es_\<close> because the three structs share field names. Pointers to endpoints
  are modelled by the values they point to (the code never writes through them, and a
  list of endpoints holds no nil pointer), a Go \<open>map[string]string\<close> is a partial
  function, and the nil map is the empty one: the code only reads label maps, and a
  read of a nil map finds nothing.
\<close>

record RecordKey =
  RecordType :: string
  DNSName :: string

type_synonym labels = "string \<rightharpoonup> string"

record Endpoint =
  ep_DNSName :: string
  ep_Target :: string
  ep_RecordType :: string
  ep_AliasTarget :: bool
  ep_Labels :: labels

record EndpointSet =
  es_DNSName :: string
  es_RecordType :: string
  es_Targets :: "string list"
  es_Labels :: labels

text \<open>The four lists of actions handed to a DNS provider (struct \<open>Changes\<close>).\<close>

record Changes =
  Create :: "EndpointSet list"
  UpdateOld :: "EndpointSet list"
  UpdateNew :: "EndpointSet list"
  Delete :: "EndpointSet list"

text \<open>
  A \<open>Policy\<close> is an interface with one method \<open>Apply\<close> from \<open>*Changes\<close> to \<open>*Changes\<close>;
  its declaration is outside the plan file. It is taken as a function on nullable
  \<open>Changes\<close>, \<open>None\<close> being the nil pointer: a policy is a value that implements the
  interface (not the nil interface) and its \<open>Apply\<close> returns and has no effect besides
  its result, as the specification requires of a policy.
\<close>

type_synonym Policy = "Changes option \<Rightarrow> Changes option"

record Plan =
  Aliases :: "string \<rightharpoonup> Endpoint list"
  Labels :: "RecordKey \<rightharpoonup> labels"
  CurrentTargets :: "RecordKey \<rightharpoonup> string list"
  RecordTargets :: "RecordKey \<rightharpoonup> string list"
  Policies :: "Policy list"
  Changes :: "Changes option"

section \<open>Plan construction\<close>

text \<open>
  \<open>m[k] = append(m[k], v)\<close> on a Go map of slices: a missing key reads as the nil slice,
  so the first append creates the bucket.
\<close>

definition appendTo :: "('k \<rightharpoonup> 'v list) \<Rightarrow> 'k \<Rightarrow> 'v \<Rightarrow> ('k \<rightharpoonup> 'v list)" where
  "appendTo m k v = m(k \<mapsto> (case m k of None \<Rightarrow> [] | Some vs \<Rightarrow> vs) @ [v])"

text \<open>First loop of \<open>NewPlan\<close>: alias endpoints go to the alias index, the others to \<open>records\<close>.\<close>

fun collectAliases ::
  "Endpoint list \<Rightarrow> (string \<rightharpoonup> Endpoint list) \<Rightarrow> Endpoint list
    \<Rightarrow> (string \<rightharpoonup> Endpoint list) \<times> Endpoint list" where
  "collectAliases [] aliases records = (aliases, records)"
| "collectAliases (ep # desired) aliases records =
     (if ep_AliasTarget ep
      then collectAliases desired (appendTo aliases (ep_DNSName ep) ep) records
      else collectAliases desired aliases (records @ [ep]))"

text \<open>Inner loop of the second loop: one append per alias registered for the target.\<close>

fun expandAliases ::
  "Endpoint list \<Rightarrow> Endpoint \<Rightarrow> (RecordKey \<rightharpoonup> string list) \<Rightarrow> (RecordKey \<rightharpoonup> string list)" where
  "expandAliases [] ep recordTargets = recordTargets"
| "expandAliases (alias # aliases) ep recordTargets =
     expandAliases aliases ep
       (appendTo recordTargets
          \<lparr>RecordType = ep_RecordType alias, DNSName = ep_DNSName ep\<rparr> (ep_Target alias))"

text \<open>
  Second loop of \<open>NewPlan\<close>. The constant \<open>endpoint.RecordTypeInternalALIAS\<close> is declared
  outside the sources at hand and is the parameter \<open>internalALIAS\<close>. A target without
  an entry in the alias index reads as the nil slice, over which the inner loop does
  not iterate.
\<close>

fun aggregateDesired ::
  "string \<Rightarrow> (string \<rightharpoonup> Endpoint list) \<Rightarrow> Endpoint list
    \<Rightarrow> (RecordKey \<rightharpoonup> string list) \<Rightarrow> (RecordKey \<rightharpoonup> string list)" where
  "aggregateDesired internalALIAS aliases [] recordTargets = recordTargets"
| "aggregateDesired internalALIAS aliases (ep # records) recordTargets =
     (if ep_RecordType ep = internalALIAS
      then aggregateDesired internalALIAS aliases records
             (expandAliases (case aliases (ep_Target ep) of None \<Rightarrow> [] | Some as \<Rightarrow> as)
                ep recordTargets)
      else aggregateDesired internalALIAS aliases records
             (appendTo recordTargets
                \<lparr>RecordType = ep_RecordType ep, DNSName = ep_DNSName ep\<rparr> (ep_Target ep)))"

text \<open>Third loop of \<open>NewPlan\<close>: the labels are overwritten, the targets appended.\<close>

fun aggregateCurrent ::
  "Endpoint list \<Rightarrow> (RecordKey \<rightharpoonup> labels) \<Rightarrow> (RecordKey \<rightharpoonup> string list)
    \<Rightarrow> (RecordKey \<rightharpoonup> labels) \<times> (RecordKey \<rightharpoonup> string list)" where
  "aggregateCurrent [] lbls currentTargets = (lbls, currentTargets)"
| "aggregateCurrent (ep # current) lbls currentTargets =
     (let key = \<lparr>RecordType = ep_RecordType ep, DNSName = ep_DNSName ep\<rparr>
      in aggregateCurrent current (lbls(key \<mapsto> ep_Labels ep))
           (appendTo currentTargets key (ep_Target ep)))"

definition NewPlan :: "string \<Rightarrow> Endpoint list \<Rightarrow> Endpoint list \<Rightarrow> Policy \<Rightarrow> Plan" where
  "NewPlan internalALIAS current desired policy =
     (let (aliases, records) = collectAliases desired Map.empty [];
          recordTargets = aggregateDesired internalALIAS aliases records Map.empty;
          (lbls, currentTargets) = aggregateCurrent current Map.empty Map.empty
      in \<lparr>Aliases = aliases, Labels = lbls, CurrentTargets = currentTargets,
          RecordTargets = recordTargets, Policies = [policy], Changes = None\<rparr>)"

section \<open>Calculate\<close>

text \<open>
  Modelled from the spec: \<open>endpoint.TargetSliceEquals\<close> is called by \<open>Calculate\<close> but its
  body is not part of the sources at hand. The specification requires the target lists
  of two endpoint sets to be compared as multisets: same elements with the same
  multiplicities, in any order.
\<close>

definition TargetSliceEquals :: "string list \<Rightarrow> string list \<Rightarrow> bool" where
  "TargetSliceEquals a b \<longleftrightarrow> mset a = mset b"

text \<open>\<open>plan.Labels[key]\<close> as a value: the nil map when the key is absent.\<close>

definition labelsAt :: "(RecordKey \<rightharpoonup> labels) \<Rightarrow> RecordKey \<Rightarrow> labels" where
  "labelsAt m key = (case m key of None \<Rightarrow> Map.empty | Some l \<Rightarrow> l)"

text \<open>
  Go leaves the order in which \<open>range\<close> visits a map unspecified; it visits every key
  once. The two \<open>range\<close> loops of \<open>Calculate\<close> therefore take the order of the visit as
  a list of keys, and \<open>rangeOrder keys m\<close> says that the list is such a visit of \<open>m\<close>.
\<close>

definition rangeOrder :: "'k list \<Rightarrow> ('k \<rightharpoonup> 'v) \<Rightarrow> bool" where
  "rangeOrder keys m \<longleftrightarrow> distinct keys \<and> set keys = dom m"

text \<open>
  Loop over \<open>plan.RecordTargets\<close>. A key of the list that the map does not hold is not
  visited by \<open>range\<close> and is skipped.
\<close>

fun diffDesired :: "Plan \<Rightarrow> RecordKey list \<Rightarrow> Changes \<Rightarrow> Changes" where
  "diffDesired plan [] changes = changes"
| "diffDesired plan (key # keys) changes =
     (case RecordTargets plan key of
        None \<Rightarrow> diffDesired plan keys changes
      | Some desired \<Rightarrow>
          (case CurrentTargets plan key of
             None \<Rightarrow>
               diffDesired plan keys
                 (changes\<lparr>Create := Create changes @
                    [\<lparr>es_DNSName = DNSName key, es_RecordType = RecordType key,
                      es_Targets = desired, es_Labels = Map.empty\<rparr>]\<rparr>)
           | Some current \<Rightarrow>
               (if TargetSliceEquals current desired
                then diffDesired plan keys changes
                else diffDesired plan keys
                  (changes\<lparr>UpdateOld := UpdateOld changes @
                      [\<lparr>es_DNSName = DNSName key, es_RecordType = RecordType key,
                        es_Targets = current, es_Labels = labelsAt (Labels plan) key\<rparr>],
                    UpdateNew := UpdateNew changes @
                      [\<lparr>es_DNSName = DNSName key, es_RecordType = RecordType key,
                        es_Targets = desired, es_Labels = labelsAt (Labels plan) key\<rparr>]\<rparr>))))"

text \<open>Loop over \<open>plan.CurrentTargets\<close>.\<close>

fun diffCurrent :: "Plan \<Rightarrow> RecordKey list \<Rightarrow> Changes \<Rightarrow> Changes" where
  "diffCurrent plan [] changes = changes"
| "diffCurrent plan (key # keys) changes =
     (case CurrentTargets plan key of
        None \<Rightarrow> diffCurrent plan keys changes
      | Some current \<Rightarrow>
          (case RecordTargets plan key of
             None \<Rightarrow>
               diffCurrent plan keys
                 (changes\<lparr>Delete := Delete changes @
                    [\<lparr>es_DNSName = DNSName key, es_RecordType = RecordType key,
                      es_Targets = current, es_Labels = labelsAt (Labels plan) key\<rparr>]\<rparr>)
           | Some desired \<Rightarrow> diffCurrent plan keys changes))"

text \<open>Loop over \<open>plan.Policies\<close>: \<open>changes = pol.Apply(changes)\<close>.\<close>

fun applyPolicies :: "Policy list \<Rightarrow> Changes option \<Rightarrow> Changes option" where
  "applyPolicies [] changes = changes"
| "applyPolicies (pol # policies) changes = applyPolicies policies (pol changes)"

text \<open>The changes of \<open>Calculate\<close> after its two \<open>range\<close> loops, before the policies.\<close>

definition diffChanges :: "RecordKey list \<Rightarrow> RecordKey list \<Rightarrow> Plan \<Rightarrow> Changes" where
  "diffChanges desiredOrder currentOrder plan =
     diffCurrent plan currentOrder
       (diffDesired plan desiredOrder
          \<lparr>Create = [], UpdateOld = [], UpdateNew = [], Delete = []\<rparr>)"

text \<open>
  \<open>Calculate\<close>, given the orders of its two map visits. The returned plan is a new
  struct literal that sets four fields; \<open>Labels\<close> and \<open>Policies\<close> keep their zero
  values, the nil map and the nil slice.
\<close>

definition Calculate :: "RecordKey list \<Rightarrow> RecordKey list \<Rightarrow> Plan \<Rightarrow> Plan" where
  "Calculate desiredOrder currentOrder plan =
     \<lparr>Aliases = Aliases plan, Labels = Map.empty,
      CurrentTargets = CurrentTargets plan, RecordTargets = RecordTargets plan,
      Policies = [],
      Changes = applyPolicies (Policies plan)
                  (Some (diffChanges desiredOrder currentOrder plan))\<rparr>"

section \<open>Ownership filter\<close>

text \<open>
  \<open>filterOwnedRecords\<close> of the registry. The constant \<open>endpoint.OwnerLabelKey\<close> is
  declared outside the sources at hand and is the first parameter \<open>ownerLabelKey\<close>. The
  two-valued map read \<open>endpointOwner, ok := Labels[key]\<close> is the \<open>case\<close> on the lookup;
  the debug log line has no effect on the result.
\<close>

fun filterOwnedRecords :: "string \<Rightarrow> string \<Rightarrow> EndpointSet list \<Rightarrow> EndpointSet list" where
  "filterOwnedRecords ownerLabelKey ownerID [] = []"
| "filterOwnedRecords ownerLabelKey ownerID (endpointSet # endpointSets) =
     (case es_Labels endpointSet ownerLabelKey of
        None \<Rightarrow> filterOwnedRecords ownerLabelKey ownerID endpointSets
      | Some endpointOwner \<Rightarrow>
          (if endpointOwner \<noteq> ownerID
           then filterOwnedRecords ownerLabelKey ownerID endpointSets
           else endpointSet # filterOwnedRecords ownerLabelKey ownerID endpointSets))"

section \<open>Calculate through its pointers\<close>

text \<open>
  \<open>Calculate\<close> has a pointer receiver and returns a pointer to a newly allocated \<open>Plan\<close>.
  The store is the list of the plans allocated so far and a pointer is an index into
  it; the struct literal \<open>&Plan{...}\<close> allocates at the end of the store. Reading a field
  through a receiver that points to no plan (the nil pointer) panics: \<open>None\<close>. The body
  holds no assignment through the receiver, so the store changes by the allocation only.
\<close>

type_synonym store = "Plan list"

definition CalculateAt ::
  "RecordKey list \<Rightarrow> RecordKey list \<Rightarrow> nat \<Rightarrow> store \<Rightarrow> (nat \<times> store) option" where
  "CalculateAt desiredOrder currentOrder p st =
     (if p < length st
      then Some (length st, st @ [Calculate desiredOrder currentOrder (st ! p)])
      else None)"

section \<open>Vocabulary of the properties\<close>

text \<open>The record key of an endpoint and of an endpoint set.\<close>

definition endpointKey :: "Endpoint \<Rightarrow> RecordKey" where
  "endpointKey ep = \<lparr>RecordType = ep_RecordType ep, DNSName = ep_DNSName ep\<rparr>"

definition setKey :: "EndpointSet \<Rightarrow> RecordKey" where
  "setKey es = \<lparr>RecordType = es_RecordType es, DNSName = es_DNSName es\<rparr>"

text \<open>A bucket read as a slice: the nil slice when the key is absent.\<close>

definition targetsAt :: "(RecordKey \<rightharpoonup> string list) \<Rightarrow> RecordKey \<Rightarrow> string list" where
  "targetsAt m key = (case m key of None \<Rightarrow> [] | Some ts \<Rightarrow> ts)"

text \<open>The endpoint set with a given key, target list and label map.\<close>

definition setOf :: "RecordKey \<Rightarrow> string list \<Rightarrow> labels \<Rightarrow> EndpointSet" where
  "setOf key targets lbls =
     \<lparr>es_DNSName = DNSName key, es_RecordType = RecordType key,
      es_Targets = targets, es_Labels = lbls\<rparr>"

text \<open>
  The targets appended under one key by a list of appends, in the order of the list, and
  the map after a list of appends: a key without an append keeps its bucket, a key with
  appends gets them after what its bucket held.
\<close>

definition bucket :: "('k \<times> 'v) list \<Rightarrow> 'k \<Rightarrow> 'v list" where
  "bucket kvs key = map snd (filter (\<lambda>kv. fst kv = key) kvs)"

definition appendAll :: "('k \<rightharpoonup> 'v list) \<Rightarrow> ('k \<times> 'v) list \<Rightarrow> ('k \<rightharpoonup> 'v list)" where
  "appendAll m kvs =
     (\<lambda>key. if bucket kvs key = [] then m key
            else Some ((case m key of None \<Rightarrow> [] | Some vs \<Rightarrow> vs) @ bucket kvs key))"

text \<open>
  What one regular desired endpoint appends in the second loop of \<open>NewPlan\<close>, as the
  list of its (key, target) pairs.
\<close>

definition contributions ::
  "string \<Rightarrow> (string \<rightharpoonup> Endpoint list) \<Rightarrow> Endpoint \<Rightarrow> (RecordKey \<times> string) list" where
  "contributions internalALIAS aliases ep =
     (if ep_RecordType ep = internalALIAS
      then map (\<lambda>alias. (\<lparr>RecordType = ep_RecordType alias, DNSName = ep_DNSName ep\<rparr>, ep_Target alias))
             (case aliases (ep_Target ep) of None \<Rightarrow> [] | Some as \<Rightarrow> as)
      else [(\<lparr>RecordType = ep_RecordType ep, DNSName = ep_DNSName ep\<rparr>, ep_Target ep)])"

text \<open>
  The three cases of the first \<open>range\<close> loop of \<open>Calculate\<close> and the case of the second
  as predicates on keys, and the endpoint sets the loops append for a key.
\<close>

definition toCreate :: "Plan \<Rightarrow> RecordKey \<Rightarrow> bool" where
  "toCreate plan key \<longleftrightarrow> RecordTargets plan key \<noteq> None \<and> CurrentTargets plan key = None"

definition toUpdate :: "Plan \<Rightarrow> RecordKey \<Rightarrow> bool" where
  "toUpdate plan key \<longleftrightarrow>
     RecordTargets plan key \<noteq> None \<and> CurrentTargets plan key \<noteq> None
     \<and> \<not> TargetSliceEquals (targetsAt (CurrentTargets plan) key) (targetsAt (RecordTargets plan) key)"

definition toDelete :: "Plan \<Rightarrow> RecordKey \<Rightarrow> bool" where
  "toDelete plan key \<longleftrightarrow> CurrentTargets plan key \<noteq> None \<and> RecordTargets plan key = None"

definition createSet :: "Plan \<Rightarrow> RecordKey \<Rightarrow> EndpointSet" where
  "createSet plan key = setOf key (targetsAt (RecordTargets plan) key) Map.empty"

definition updateOldSet :: "Plan \<Rightarrow> RecordKey \<Rightarrow> EndpointSet" where
  "updateOldSet plan key =
     setOf key (targetsAt (CurrentTargets plan) key) (labelsAt (Labels plan) key)"

definition updateNewSet :: "Plan \<Rightarrow> RecordKey \<Rightarrow> EndpointSet" where
  "updateNewSet plan key =
     setOf key (targetsAt (RecordTargets plan) key) (labelsAt (Labels plan) key)"

definition deleteSet :: "Plan \<Rightarrow> RecordKey \<Rightarrow> EndpointSet" where
  "deleteSet plan key =
     setOf key (targetsAt (CurrentTargets plan) key) (labelsAt (Labels plan) key)"

text \<open>
  The record keys named by the entries of a nullable \<open>Changes\<close>, and the part of the
  policy contract of the specification that a policy introduces no record key absent
  from its input.
\<close>

definition changeKeys :: "Changes option \<Rightarrow> RecordKey set" where
  "changeKeys changes =
     (case changes of
        None \<Rightarrow> {}
      | Some c \<Rightarrow> setKey ` (set (Create c) \<union> set (UpdateOld c) \<union> set (UpdateNew c)
                            \<union> set (Delete c)))"

definition introducesNoKey :: "Policy \<Rightarrow> bool" where
  "introducesNoKey pol \<longleftrightarrow> (\<forall>changes. changeKeys (pol changes) \<subseteq> changeKeys changes)"

text \<open>
  Inputs of the examples: a regular endpoint, a key of record type \<open>A\<close>, a policy that
  empties the \<open>Delete\<close> list (what the specification calls upsert-only), and a plan with
  one key to create, one to update and one to delete.
\<close>

definition regular :: "string \<Rightarrow> string \<Rightarrow> string \<Rightarrow> labels \<Rightarrow> Endpoint" where
  "regular name target recordType lbls =
     \<lparr>ep_DNSName = name, ep_Target = target, ep_RecordType = recordType,
      ep_AliasTarget = False, ep_Labels = lbls\<rparr>"

definition withoutDelete :: Policy where
  "withoutDelete changes = map_option (\<lambda>c. c\<lparr>Delete := []\<rparr>) changes"

definition keyA :: "string \<Rightarrow> RecordKey" where
  "keyA name = \<lparr>RecordType = ''A'', DNSName = name\<rparr>"

definition examplePlan :: Plan where
  "examplePlan =
     NewPlan ''InternalAlias''
       [regular ''x.com'' ''1.2.3.4'' ''A'' [''owner'' \<mapsto> ''me''],
        regular ''old.com'' ''9.9.9.9'' ''A'' [''owner'' \<mapsto> ''you'']]
       [regular ''x.com'' ''5.6.7.8'' ''A'' Map.empty,
        regular ''new.com'' ''7.7.7.7'' ''A'' Map.empty]
       withoutDelete"

section \<open>The maps built by NewPlan\<close>

lemma bucket_simps [simp]:
  "bucket [] key = []"
  "bucket ((k, v) # kvs) key = (if k = key then v # bucket kvs key else bucket kvs key)"
  "bucket (xs @ ys) key = bucket xs key @ bucket ys key"
  by (simp_all add: bucket_def)

lemma appendAll_Nil [simp]: "appendAll m [] = m"
  by (simp add: appendAll_def)

lemma appendAll_Cons: "appendAll m ((k, v) # kvs) = appendAll (appendTo m k v) kvs"
  by (rule ext) (simp add: appendAll_def appendTo_def split: option.splits)

lemma appendAll_append: "appendAll m (xs @ ys) = appendAll (appendAll m xs) ys"
  by (rule ext) (simp add: appendAll_def split: option.splits)

lemma expandAliases_appendAll:
  "expandAliases as ep rt =
     appendAll rt (map (\<lambda>alias. (\<lparr>RecordType = ep_RecordType alias, DNSName = ep_DNSName ep\<rparr>, ep_Target alias)) as)"
  by (induction as arbitrary: rt) (simp_all add: appendAll_Cons)

lemma aggregateDesired_appendAll:
  "aggregateDesired ia al recs rt = appendAll rt (concat (map (contributions ia al) recs))"
  by (induction recs arbitrary: rt)
     (simp_all add: contributions_def expandAliases_appendAll appendAll_append appendAll_Cons)

lemma collectAliases_eq:
  "collectAliases desired al recs =
     (appendAll al (map (\<lambda>ep. (ep_DNSName ep, ep)) (filter ep_AliasTarget desired)),
      recs @ filter (\<lambda>ep. \<not> ep_AliasTarget ep) desired)"
  by (induction desired arbitrary: al recs) (simp_all add: appendAll_Cons)

lemma aggregateCurrent_eq:
  "aggregateCurrent current lbls ct =
     ((\<lambda>key. case filter (\<lambda>ep. endpointKey ep = key) current of
               [] \<Rightarrow> lbls key
             | e # es \<Rightarrow> Some (ep_Labels (last (e # es)))),
      appendAll ct (map (\<lambda>ep. (endpointKey ep, ep_Target ep)) current))"
proof (induction current arbitrary: lbls ct)
  case Nil
  show ?case by simp
next
  case (Cons ep current)
  show ?case
    by (simp add: Cons.IH Let_def appendAll_Cons endpointKey_def fun_eq_iff split: list.splits)
qed

lemma NewPlan_fields:
  "Aliases (NewPlan ia current desired pol) =
     appendAll Map.empty (map (\<lambda>ep. (ep_DNSName ep, ep)) (filter ep_AliasTarget desired))"
  "RecordTargets (NewPlan ia current desired pol) =
     appendAll Map.empty
       (concat (map (contributions ia (Aliases (NewPlan ia current desired pol)))
                  (filter (\<lambda>ep. \<not> ep_AliasTarget ep) desired)))"
  "CurrentTargets (NewPlan ia current desired pol) =
     appendAll Map.empty (map (\<lambda>ep. (endpointKey ep, ep_Target ep)) current)"
  "Labels (NewPlan ia current desired pol) =
     (\<lambda>key. case filter (\<lambda>ep. endpointKey ep = key) current of
               [] \<Rightarrow> None
             | e # es \<Rightarrow> Some (ep_Labels (last (e # es))))"
  "Policies (NewPlan ia current desired pol) = [pol]"
  "Changes (NewPlan ia current desired pol) = None"
  by (simp_all add: NewPlan_def collectAliases_eq aggregateCurrent_eq aggregateDesired_appendAll)

lemma bucket_map_key:
  "bucket (map (\<lambda>x. (f x, g x)) xs) key = map g (filter (\<lambda>x. f x = key) xs)"
  by (induction xs) simp_all

lemma appendAll_empty:
  "appendAll Map.empty kvs key = (if bucket kvs key = [] then None else Some (bucket kvs key))"
  by (simp add: appendAll_def)

text \<open>
  C8. When current endpoints share a record key, the label snapshot of the key is the
  label map of the last of them in the order of the list, and the current bucket of the
  key holds the targets of all of them, in that order. (Stated for one or more
  endpoints with the key; two or more is the case of the claim.)
\<close>

theorem NewPlan_current_last_labels:
  assumes "filter (\<lambda>ep. endpointKey ep = key) current = eps" and "eps \<noteq> []"
  shows "Labels (NewPlan internalALIAS current desired policy) key = Some (ep_Labels (last eps))
       \<and> CurrentTargets (NewPlan internalALIAS current desired policy) key
           = Some (map ep_Target eps)"
  using assms
  by (auto simp add: NewPlan_fields appendAll_empty bucket_map_key split: list.splits)

theorem NewPlan_current_last_labels_witness:
  "filter (\<lambda>ep. endpointKey ep = \<lparr>RecordType = ''A'', DNSName = ''x.com''\<rparr>)
      [\<lparr>ep_DNSName = ''x.com'', ep_Target = ''1.1.1.1'', ep_RecordType = ''A'',
         ep_AliasTarget = False, ep_Labels = [''owner'' \<mapsto> ''first'']\<rparr>,
       \<lparr>ep_DNSName = ''y.com'', ep_Target = ''3.3.3.3'', ep_RecordType = ''A'',
         ep_AliasTarget = False, ep_Labels = Map.empty\<rparr>,
       \<lparr>ep_DNSName = ''x.com'', ep_Target = ''2.2.2.2'', ep_RecordType = ''A'',
         ep_AliasTarget = False, ep_Labels = [''owner'' \<mapsto> ''second'']\<rparr>]
    = [\<lparr>ep_DNSName = ''x.com'', ep_Target = ''1.1.1.1'', ep_RecordType = ''A'',
         ep_AliasTarget = False, ep_Labels = [''owner'' \<mapsto> ''first'']\<rparr>,
       \<lparr>ep_DNSName = ''x.com'', ep_Target = ''2.2.2.2'', ep_RecordType = ''A'',
         ep_AliasTarget = False, ep_Labels = [''owner'' \<mapsto> ''second'']\<rparr>]
   \<and> Labels (NewPlan ''InternalAlias''
        [\<lparr>ep_DNSName = ''x.com'', ep_Target = ''1.1.1.1'', ep_RecordType = ''A'',
           ep_AliasTarget = False, ep_Labels = [''owner'' \<mapsto> ''first'']\<rparr>,
         \<lparr>ep_DNSName = ''y.com'', ep_Target = ''3.3.3.3'', ep_RecordType = ''A'',
           ep_AliasTarget = False, ep_Labels = Map.empty\<rparr>,
         \<lparr>ep_DNSName = ''x.com'', ep_Target = ''2.2.2.2'', ep_RecordType = ''A'',
           ep_AliasTarget = False, ep_Labels = [''owner'' \<mapsto> ''second'']\<rparr>]
        [] (\<lambda>c. c)) \<lparr>RecordType = ''A'', DNSName = ''x.com''\<rparr>
      = Some [''owner'' \<mapsto> ''second'']
   \<and> CurrentTargets (NewPlan ''InternalAlias''
        [\<lparr>ep_DNSName = ''x.com'', ep_Target = ''1.1.1.1'', ep_RecordType = ''A'',
           ep_AliasTarget = False, ep_Labels = [''owner'' \<mapsto> ''first'']\<rparr>,
         \<lparr>ep_DNSName = ''y.com'', ep_Target = ''3.3.3.3'', ep_RecordType = ''A'',
           ep_AliasTarget = False, ep_Labels = Map.empty\<rparr>,
         \<lparr>ep_DNSName = ''x.com'', ep_Target = ''2.2.2.2'', ep_RecordType = ''A'',
           ep_AliasTarget = False, ep_Labels = [''owner'' \<mapsto> ''second'']\<rparr>]
        [] (\<lambda>c. c)) \<lparr>RecordType = ''A'', DNSName = ''x.com''\<rparr>
      = Some [''1.1.1.1'', ''2.2.2.2'']"
  using NewPlan_current_last_labels
    [of "\<lparr>RecordType = ''A'', DNSName = ''x.com''\<rparr>"
        "[\<lparr>ep_DNSName = ''x.com'', ep_Target = ''1.1.1.1'', ep_RecordType = ''A'',
           ep_AliasTarget = False, ep_Labels = [''owner'' \<mapsto> ''first'']\<rparr>,
         \<lparr>ep_DNSName = ''y.com'', ep_Target = ''3.3.3.3'', ep_RecordType = ''A'',
           ep_AliasTarget = False, ep_Labels = Map.empty\<rparr>,
         \<lparr>ep_DNSName = ''x.com'', ep_Target = ''2.2.2.2'', ep_RecordType = ''A'',
           ep_AliasTarget = False, ep_Labels = [''owner'' \<mapsto> ''second'']\<rparr>]"
        "[\<lparr>ep_DNSName = ''x.com'', ep_Target = ''1.1.1.1'', ep_RecordType = ''A'',
           ep_AliasTarget = False, ep_Labels = [''owner'' \<mapsto> ''first'']\<rparr>,
         \<lparr>ep_DNSName = ''x.com'', ep_Target = ''2.2.2.2'', ep_RecordType = ''A'',
           ep_AliasTarget = False, ep_Labels = [''owner'' \<mapsto> ''second'']\<rparr>]"
        "''InternalAlias''" "[]" "\<lambda>c. c"]
  by (simp add: endpointKey_def)

lemma bucket_concat_contributions_Nil:
  assumes "\<forall>e \<in> set recs. ep_DNSName e \<noteq> DNSName key"
  shows "bucket (concat (map (contributions ia al) recs)) key = []"
  using assms
proof (induction recs)
  case Nil
  show ?case by simp
next
  case (Cons e recs)
  have "bucket (contributions ia al e) key = []"
    using Cons.prems by (auto simp add: contributions_def bucket_def filter_empty_conv)
  with Cons show ?case by simp
qed

text \<open>
  C7. A regular desired endpoint of record type \<open>InternalAlias\<close> whose target has no entry
  in the alias index contributes nothing: the plan is the plan built without the
  endpoint, so \<open>Calculate\<close> returns the same plan with the same changes, and when no
  other regular endpoint has its DNS name, no bucket exists under that name. \<open>NewPlan\<close>
  is a total function: no error value exists.
\<close>

theorem NewPlan_unresolved_alias_dropped:
  assumes "\<not> ep_AliasTarget ep" and "ep_RecordType ep = internalALIAS"
    and "Aliases (NewPlan internalALIAS current (xs @ ep # ys) policy) (ep_Target ep) = None"
  shows "NewPlan internalALIAS current (xs @ ep # ys) policy
           = NewPlan internalALIAS current (xs @ ys) policy
       \<and> Calculate desiredOrder currentOrder (NewPlan internalALIAS current (xs @ ep # ys) policy)
           = Calculate desiredOrder currentOrder (NewPlan internalALIAS current (xs @ ys) policy)
       \<and> ((\<forall>e \<in> set (xs @ ys). ep_AliasTarget e \<or> ep_DNSName e \<noteq> ep_DNSName ep) \<longrightarrow>
            (\<forall>key. DNSName key = ep_DNSName ep \<longrightarrow>
               RecordTargets (NewPlan internalALIAS current (xs @ ep # ys) policy) key = None))"
proof -
  let ?P = "NewPlan internalALIAS current (xs @ ep # ys) policy"
  let ?Q = "NewPlan internalALIAS current (xs @ ys) policy"
  have al: "Aliases ?P = Aliases ?Q"
    using assms(1) by (simp add: NewPlan_fields)
  have c: "contributions internalALIAS (Aliases ?Q) ep = []"
    using assms(2,3) by (simp add: contributions_def al [symmetric])
  have rt: "RecordTargets ?P = RecordTargets ?Q"
    using assms(1) c by (simp add: NewPlan_fields(2) al) 
  have eq: "?P = ?Q"
    using al rt by (simp add: Plan.equality NewPlan_fields(3-6))
  have none: "RecordTargets ?P key = None"
    if "\<forall>e \<in> set (xs @ ys). ep_AliasTarget e \<or> ep_DNSName e \<noteq> ep_DNSName ep"
      and "DNSName key = ep_DNSName ep" for key
  proof -
    have "\<forall>e \<in> set (filter (\<lambda>ep. \<not> ep_AliasTarget ep) (xs @ ys)). ep_DNSName e \<noteq> DNSName key"
      using that by auto
    then show ?thesis
      unfolding eq NewPlan_fields(2) appendAll_empty
      by (simp add: bucket_concat_contributions_Nil)
  qed
  show ?thesis using eq none by simp
qed

theorem NewPlan_unresolved_alias_dropped_witness:
  "\<not> ep_AliasTarget \<lparr>ep_DNSName = ''app.example.com'', ep_Target = ''lb'',
        ep_RecordType = ''InternalAlias'', ep_AliasTarget = False, ep_Labels = Map.empty\<rparr>
   \<and> Aliases (NewPlan ''InternalAlias'' []
        ([\<lparr>ep_DNSName = ''x.com'', ep_Target = ''1.2.3.4'', ep_RecordType = ''A'',
            ep_AliasTarget = False, ep_Labels = Map.empty\<rparr>]
         @ \<lparr>ep_DNSName = ''app.example.com'', ep_Target = ''lb'',
             ep_RecordType = ''InternalAlias'', ep_AliasTarget = False, ep_Labels = Map.empty\<rparr>
         # []) (\<lambda>c. c)) ''lb'' = None
   \<and> NewPlan ''InternalAlias'' []
        ([\<lparr>ep_DNSName = ''x.com'', ep_Target = ''1.2.3.4'', ep_RecordType = ''A'',
            ep_AliasTarget = False, ep_Labels = Map.empty\<rparr>]
         @ \<lparr>ep_DNSName = ''app.example.com'', ep_Target = ''lb'',
             ep_RecordType = ''InternalAlias'', ep_AliasTarget = False, ep_Labels = Map.empty\<rparr>
         # []) (\<lambda>c. c)
      = NewPlan ''InternalAlias'' []
          ([\<lparr>ep_DNSName = ''x.com'', ep_Target = ''1.2.3.4'', ep_RecordType = ''A'',
              ep_AliasTarget = False, ep_Labels = Map.empty\<rparr>] @ []) (\<lambda>c. c)
   \<and> RecordTargets (NewPlan ''InternalAlias'' []
        ([\<lparr>ep_DNSName = ''x.com'', ep_Target = ''1.2.3.4'', ep_RecordType = ''A'',
            ep_AliasTarget = False, ep_Labels = Map.empty\<rparr>]
         @ \<lparr>ep_DNSName = ''app.example.com'', ep_Target = ''lb'',
             ep_RecordType = ''InternalAlias'', ep_AliasTarget = False, ep_Labels = Map.empty\<rparr>
         # []) (\<lambda>c. c))
       \<lparr>RecordType = ''InternalAlias'', DNSName = ''app.example.com''\<rparr> = None"
  using NewPlan_unresolved_alias_dropped
    [of "\<lparr>ep_DNSName = ''app.example.com'', ep_Target = ''lb'',
          ep_RecordType = ''InternalAlias'', ep_AliasTarget = False, ep_Labels = Map.empty\<rparr>"
        "''InternalAlias''" "[]"
        "[\<lparr>ep_DNSName = ''x.com'', ep_Target = ''1.2.3.4'', ep_RecordType = ''A'',
            ep_AliasTarget = False, ep_Labels = Map.empty\<rparr>]"
        "[]" "\<lambda>c. c"]
  by (simp add: NewPlan_def appendTo_def)

lemma bucket_contributions_alias:
  assumes "ep_RecordType ep = ia" and "al (ep_Target ep) = Some as"
  shows "bucket (contributions ia al ep) \<lparr>RecordType = rt, DNSName = ep_DNSName ep\<rparr>
           = map ep_Target (filter (\<lambda>b. ep_RecordType b = rt) as)"
  using assms by (simp add: contributions_def bucket_map_key)

text \<open>
  C6. For a regular desired endpoint of record type \<open>InternalAlias\<close> whose target has
  the aliases \<open>as\<close> in the alias index, and for each alias among them, the bucket keyed by
  the record type of the alias and the DNS name of the endpoint exists and holds, next
  to each other and in the order of the index, the targets of the aliases of that
  record type. For the desired endpoints of the example (alias target \<open>lb\<close> to \<open>A\<close> of
  type \<open>CNAME\<close>, and \<open>app.example.com\<close> to \<open>lb\<close> of type \<open>InternalAlias\<close>) and no current
  endpoint, the only desired key is \<open>{CNAME, app.example.com}\<close> and \<open>Calculate\<close> hands to
  the policy the changes whose only entry is the \<open>Create\<close> of that key with targets
  \<open>[A]\<close>; with the policy that passes its input through, these are the changes of the
  returned plan.
\<close>

theorem NewPlan_expands_aliases:
  "(\<not> ep_AliasTarget ep \<and> ep_RecordType ep = internalALIAS
      \<and> Aliases (NewPlan internalALIAS current (xs @ ep # ys) policy) (ep_Target ep) = Some as
      \<and> alias \<in> set as
    \<longrightarrow> (\<exists>before after.
          RecordTargets (NewPlan internalALIAS current (xs @ ep # ys) policy)
            \<lparr>RecordType = ep_RecordType alias, DNSName = ep_DNSName ep\<rparr>
          = Some (before
                  @ map ep_Target (filter (\<lambda>b. ep_RecordType b = ep_RecordType alias) as)
                  @ after)))
   \<and> RecordTargets
        (NewPlan internalALIAS' []
           [\<lparr>ep_DNSName = ''lb'', ep_Target = ''A'', ep_RecordType = ''CNAME'',
              ep_AliasTarget = True, ep_Labels = Map.empty\<rparr>,
            \<lparr>ep_DNSName = ''app.example.com'', ep_Target = ''lb'',
              ep_RecordType = internalALIAS', ep_AliasTarget = False, ep_Labels = Map.empty\<rparr>]
           policy')
      = [\<lparr>RecordType = ''CNAME'', DNSName = ''app.example.com''\<rparr> \<mapsto> [''A'']]
   \<and> CurrentTargets
        (NewPlan internalALIAS' []
           [\<lparr>ep_DNSName = ''lb'', ep_Target = ''A'', ep_RecordType = ''CNAME'',
              ep_AliasTarget = True, ep_Labels = Map.empty\<rparr>,
            \<lparr>ep_DNSName = ''app.example.com'', ep_Target = ''lb'',
              ep_RecordType = internalALIAS', ep_AliasTarget = False, ep_Labels = Map.empty\<rparr>]
           policy')
      = Map.empty
   \<and> Changes
        (Calculate [\<lparr>RecordType = ''CNAME'', DNSName = ''app.example.com''\<rparr>] []
           (NewPlan internalALIAS' []
              [\<lparr>ep_DNSName = ''lb'', ep_Target = ''A'', ep_RecordType = ''CNAME'',
                 ep_AliasTarget = True, ep_Labels = Map.empty\<rparr>,
               \<lparr>ep_DNSName = ''app.example.com'', ep_Target = ''lb'',
                 ep_RecordType = internalALIAS', ep_AliasTarget = False, ep_Labels = Map.empty\<rparr>]
              policy'))
      = policy' (Some \<lparr>Create = [setOf \<lparr>RecordType = ''CNAME'', DNSName = ''app.example.com''\<rparr>
                                    [''A''] Map.empty],
                       UpdateOld = [], UpdateNew = [], Delete = []\<rparr>)
   \<and> Changes
        (Calculate [\<lparr>RecordType = ''CNAME'', DNSName = ''app.example.com''\<rparr>] []
           (NewPlan internalALIAS' []
              [\<lparr>ep_DNSName = ''lb'', ep_Target = ''A'', ep_RecordType = ''CNAME'',
                 ep_AliasTarget = True, ep_Labels = Map.empty\<rparr>,
               \<lparr>ep_DNSName = ''app.example.com'', ep_Target = ''lb'',
                 ep_RecordType = internalALIAS', ep_AliasTarget = False, ep_Labels = Map.empty\<rparr>]
              (\<lambda>changes. changes)))
      = Some \<lparr>Create = [setOf \<lparr>RecordType = ''CNAME'', DNSName = ''app.example.com''\<rparr>
                              [''A''] Map.empty],
               UpdateOld = [], UpdateNew = [], Delete = []\<rparr>"
proof (intro conjI impI)
  assume h: "\<not> ep_AliasTarget ep \<and> ep_RecordType ep = internalALIAS
      \<and> Aliases (NewPlan internalALIAS current (xs @ ep # ys) policy) (ep_Target ep) = Some as
      \<and> alias \<in> set as"
  let ?P = "NewPlan internalALIAS current (xs @ ep # ys) policy"
  let ?key = "\<lparr>RecordType = ep_RecordType alias, DNSName = ep_DNSName ep\<rparr>"
  let ?c = "\<lambda>eps. bucket (concat (map (contributions internalALIAS (Aliases ?P))
                         (filter (\<lambda>ep. \<not> ep_AliasTarget ep) eps))) ?key"
  let ?mid = "map ep_Target (filter (\<lambda>b. ep_RecordType b = ep_RecordType alias) as)"
  have mid: "bucket (contributions internalALIAS (Aliases ?P) ep) ?key = ?mid"
    using h by (simp add: bucket_contributions_alias)
  have ne: "?mid \<noteq> []"
    using h by (auto simp add: filter_empty_conv)
  have b: "?c (xs @ ep # ys) = ?c xs @ ?mid @ ?c ys"
    using h mid by simp
  have "RecordTargets ?P ?key = Some (?c xs @ ?mid @ ?c ys)"
    using ne b by (simp add: NewPlan_fields(2) [of internalALIAS current "xs @ ep # ys" policy] appendAll_empty)
  then show "\<exists>before after. RecordTargets ?P ?key = Some (before @ ?mid @ after)"
    by blast
qed (simp_all add: NewPlan_def Calculate_def diffChanges_def appendTo_def setOf_def)

theorem NewPlan_expands_aliases_witness:
  "\<not> ep_AliasTarget \<lparr>ep_DNSName = ''app.example.com'', ep_Target = ''lb'',
        ep_RecordType = ''InternalAlias'', ep_AliasTarget = False, ep_Labels = Map.empty\<rparr>
   \<and> Aliases (NewPlan ''InternalAlias'' []
        ([\<lparr>ep_DNSName = ''lb'', ep_Target = ''A'', ep_RecordType = ''CNAME'',
            ep_AliasTarget = True, ep_Labels = Map.empty\<rparr>,
          \<lparr>ep_DNSName = ''lb'', ep_Target = ''B'', ep_RecordType = ''CNAME'',
            ep_AliasTarget = True, ep_Labels = Map.empty\<rparr>]
         @ \<lparr>ep_DNSName = ''app.example.com'', ep_Target = ''lb'',
             ep_RecordType = ''InternalAlias'', ep_AliasTarget = False, ep_Labels = Map.empty\<rparr>
         # []) (\<lambda>c. c)) ''lb''
      = Some [\<lparr>ep_DNSName = ''lb'', ep_Target = ''A'', ep_RecordType = ''CNAME'',
                ep_AliasTarget = True, ep_Labels = Map.empty\<rparr>,
              \<lparr>ep_DNSName = ''lb'', ep_Target = ''B'', ep_RecordType = ''CNAME'',
                ep_AliasTarget = True, ep_Labels = Map.empty\<rparr>]
   \<and> (\<exists>before after.
        RecordTargets (NewPlan ''InternalAlias'' []
          ([\<lparr>ep_DNSName = ''lb'', ep_Target = ''A'', ep_RecordType = ''CNAME'',
              ep_AliasTarget = True, ep_Labels = Map.empty\<rparr>,
            \<lparr>ep_DNSName = ''lb'', ep_Target = ''B'', ep_RecordType = ''CNAME'',
              ep_AliasTarget = True, ep_Labels = Map.empty\<rparr>]
           @ \<lparr>ep_DNSName = ''app.example.com'', ep_Target = ''lb'',
               ep_RecordType = ''InternalAlias'', ep_AliasTarget = False, ep_Labels = Map.empty\<rparr>
           # []) (\<lambda>c. c))
          \<lparr>RecordType = ''CNAME'', DNSName = ''app.example.com''\<rparr>
        = Some (before @ [''A'', ''B''] @ after))"
proof -
  let ?a = "\<lparr>ep_DNSName = ''lb'', ep_Target = ''A'', ep_RecordType = ''CNAME'',
            ep_AliasTarget = True, ep_Labels = Map.empty\<rparr>"
  let ?b = "\<lparr>ep_DNSName = ''lb'', ep_Target = ''B'', ep_RecordType = ''CNAME'',
            ep_AliasTarget = True, ep_Labels = Map.empty\<rparr>"
  let ?ep = "\<lparr>ep_DNSName = ''app.example.com'', ep_Target = ''lb'',
             ep_RecordType = ''InternalAlias'', ep_AliasTarget = False, ep_Labels = Map.empty\<rparr>"
  have al: "Aliases (NewPlan ''InternalAlias'' [] ([?a, ?b] @ ?ep # []) (\<lambda>c. c)) ''lb''
              = Some [?a, ?b]"
    by (simp add: NewPlan_def appendTo_def)
  from NewPlan_expands_aliases
    [of ?ep "''InternalAlias''" "[]" "[?a, ?b]" "[]" "\<lambda>c. c" "[?a, ?b]" ?a] al
  show ?thesis by simp
qed

section \<open>The changes computed by Calculate\<close>

lemmas diff_vocabulary =
  toCreate_def toUpdate_def toDelete_def createSet_def updateOldSet_def updateNewSet_def
  deleteSet_def setOf_def targetsAt_def

lemma diffDesired_fields:
  "Create (diffDesired plan ks c) = Create c @ map (createSet plan) (filter (toCreate plan) ks)"
  "UpdateOld (diffDesired plan ks c)
     = UpdateOld c @ map (updateOldSet plan) (filter (toUpdate plan) ks)"
  "UpdateNew (diffDesired plan ks c)
     = UpdateNew c @ map (updateNewSet plan) (filter (toUpdate plan) ks)"
  "Delete (diffDesired plan ks c) = Delete c"
  by (induction ks arbitrary: c; simp add: diff_vocabulary split: option.splits)+

lemma diffCurrent_fields:
  "Create (diffCurrent plan ks c) = Create c"
  "UpdateOld (diffCurrent plan ks c) = UpdateOld c"
  "UpdateNew (diffCurrent plan ks c) = UpdateNew c"
  "Delete (diffCurrent plan ks c) = Delete c @ map (deleteSet plan) (filter (toDelete plan) ks)"
  by (induction ks arbitrary: c; simp add: diff_vocabulary split: option.splits)+

lemma diffChanges_fields:
  "Create (diffChanges ks kc plan) = map (createSet plan) (filter (toCreate plan) ks)"
  "UpdateOld (diffChanges ks kc plan) = map (updateOldSet plan) (filter (toUpdate plan) ks)"
  "UpdateNew (diffChanges ks kc plan) = map (updateNewSet plan) (filter (toUpdate plan) ks)"
  "Delete (diffChanges ks kc plan) = map (deleteSet plan) (filter (toDelete plan) kc)"
  by (simp_all add: diffChanges_def diffDesired_fields diffCurrent_fields)

lemma setKey_sets [simp]:
  "setKey (createSet plan key) = key"
  "setKey (updateOldSet plan key) = key"
  "setKey (updateNewSet plan key) = key"
  "setKey (deleteSet plan key) = key"
  by (simp_all add: setKey_def diff_vocabulary)

lemma map_setKey [simp]:
  "map setKey (map (createSet plan) ks) = ks"
  "map setKey (map (updateOldSet plan) ks) = ks"
  "map setKey (map (updateNewSet plan) ks) = ks"
  "map setKey (map (deleteSet plan) ks) = ks"
  by (simp_all add: comp_def)

lemma Changes_Calculate:
  "Changes (Calculate ks kc plan) = applyPolicies (Policies plan) (Some (diffChanges ks kc plan))"
  by (simp add: Calculate_def)

lemma rangeOrder_filter_all:
  assumes "rangeOrder ks m" and "\<And>k. k \<in> dom m \<Longrightarrow> P k"
  shows "filter P ks = ks"
  using assms by (simp add: rangeOrder_def)

lemma applyPolicies_foldl:
  "applyPolicies ps c = foldl (\<lambda>changes pol. pol changes) c ps"
  by (induction ps arbitrary: c) simp_all

lemma applyPolicies_snoc: "applyPolicies (ps @ [p]) c = p (applyPolicies ps c)"
  by (simp add: applyPolicies_foldl)

lemma applyPolicies_changeKeys:
  assumes "\<forall>pol \<in> set ps. introducesNoKey pol"
  shows "changeKeys (applyPolicies ps c) \<subseteq> changeKeys c"
  using assms
proof (induction ps arbitrary: c)
  case Nil
  show ?case by simp
next
  case (Cons pol ps)
  have "changeKeys (applyPolicies ps (pol c)) \<subseteq> changeKeys (pol c)"
    using Cons by simp
  moreover have "changeKeys (pol c) \<subseteq> changeKeys c"
    using Cons.prems by (simp add: introducesNoKey_def)
  ultimately show ?case by simp
qed

lemma vocabulary_Policies [simp]:
  "toCreate (plan\<lparr>Policies := ps\<rparr>) = toCreate plan"
  "toUpdate (plan\<lparr>Policies := ps\<rparr>) = toUpdate plan"
  "toDelete (plan\<lparr>Policies := ps\<rparr>) = toDelete plan"
  "createSet (plan\<lparr>Policies := ps\<rparr>) = createSet plan"
  "updateOldSet (plan\<lparr>Policies := ps\<rparr>) = updateOldSet plan"
  "updateNewSet (plan\<lparr>Policies := ps\<rparr>) = updateNewSet plan"
  "deleteSet (plan\<lparr>Policies := ps\<rparr>) = deleteSet plan"
  by (rule ext, simp add: diff_vocabulary)+

lemma diffChanges_Policies [simp]:
  "diffChanges ks kc (plan\<lparr>Policies := ps\<rparr>) = diffChanges ks kc plan"
  by (rule Changes.equality) (simp_all add: diffChanges_fields)

lemma setKey_comp [simp]:
  "setKey \<circ> createSet plan = id"
  "setKey \<circ> updateOldSet plan = id"
  "setKey \<circ> updateNewSet plan = id"
  "setKey \<circ> deleteSet plan = id"
  by (simp_all add: fun_eq_iff)

lemma examplePlan_fields:
  "RecordTargets examplePlan = [keyA ''x.com'' \<mapsto> [''5.6.7.8''], keyA ''new.com'' \<mapsto> [''7.7.7.7'']]"
  "CurrentTargets examplePlan = [keyA ''x.com'' \<mapsto> [''1.2.3.4''], keyA ''old.com'' \<mapsto> [''9.9.9.9'']]"
  "Labels examplePlan = [keyA ''x.com'' \<mapsto> [''owner'' \<mapsto> ''me''],
                         keyA ''old.com'' \<mapsto> [''owner'' \<mapsto> ''you'']]"
  "Policies examplePlan = [withoutDelete]"
  "Changes examplePlan = None"
  by (simp_all add: examplePlan_def NewPlan_def appendTo_def Let_def regular_def keyA_def)

lemma examplePlan_diff:
  "diffChanges [keyA ''x.com'', keyA ''new.com''] [keyA ''x.com'', keyA ''old.com''] examplePlan
     = \<lparr>Create = [setOf (keyA ''new.com'') [''7.7.7.7''] Map.empty],
        UpdateOld = [setOf (keyA ''x.com'') [''1.2.3.4''] [''owner'' \<mapsto> ''me'']],
        UpdateNew = [setOf (keyA ''x.com'') [''5.6.7.8''] [''owner'' \<mapsto> ''me'']],
        Delete = [setOf (keyA ''old.com'') [''9.9.9.9''] [''owner'' \<mapsto> ''you'']]\<rparr>"
  by (simp add: diffChanges_def examplePlan_fields TargetSliceEquals_def labelsAt_def setOf_def
      keyA_def)

text \<open>
  C1, as the code has it. For a plan built by \<open>NewPlan\<close> whose desired and current keys
  are disjoint, and for every order in which the two maps are visited, the changes
  \<open>Calculate\<close> computes before it applies the policy have one \<open>Create\<close> entry per desired
  key, with the desired targets and no labels, one \<open>Delete\<close> entry per current key, with
  the current targets and the label snapshot of the key, and no \<open>UpdateOld\<close> or
  \<open>UpdateNew\<close> entry. The returned plan carries what the policy returns for these
  changes: the changes themselves when the policy passes them through.
\<close>

theorem Calculate_disjoint_keys:
  assumes "plan = NewPlan internalALIAS current desired policy"
    and "rangeOrder desiredOrder (RecordTargets plan)"
    and "rangeOrder currentOrder (CurrentTargets plan)"
    and "dom (RecordTargets plan) \<inter> dom (CurrentTargets plan) = {}"
  shows "Create (diffChanges desiredOrder currentOrder plan)
           = map (\<lambda>key. setOf key (targetsAt (RecordTargets plan) key) Map.empty) desiredOrder
       \<and> Delete (diffChanges desiredOrder currentOrder plan)
           = map (\<lambda>key. setOf key (targetsAt (CurrentTargets plan) key)
                          (labelsAt (Labels plan) key)) currentOrder
       \<and> UpdateOld (diffChanges desiredOrder currentOrder plan) = []
       \<and> UpdateNew (diffChanges desiredOrder currentOrder plan) = []
       \<and> distinct (map setKey (Create (diffChanges desiredOrder currentOrder plan)))
       \<and> set (map setKey (Create (diffChanges desiredOrder currentOrder plan)))
           = dom (RecordTargets plan)
       \<and> distinct (map setKey (Delete (diffChanges desiredOrder currentOrder plan)))
       \<and> set (map setKey (Delete (diffChanges desiredOrder currentOrder plan)))
           = dom (CurrentTargets plan)
       \<and> Changes (Calculate desiredOrder currentOrder plan)
           = policy (Some (diffChanges desiredOrder currentOrder plan))"
proof -
  have c: "filter (toCreate plan) desiredOrder = desiredOrder"
    using assms(2,4) by (intro rangeOrder_filter_all) (auto simp add: toCreate_def)
  have u: "filter (toUpdate plan) desiredOrder = []"
    using assms(4) by (auto simp add: filter_empty_conv toUpdate_def)
  have d: "filter (toDelete plan) currentOrder = currentOrder"
    using assms(3,4) by (intro rangeOrder_filter_all) (auto simp add: toDelete_def)
  have cs: "createSet plan = (\<lambda>key. setOf key (targetsAt (RecordTargets plan) key) Map.empty)"
    and ds: "deleteSet plan = (\<lambda>key. setOf key (targetsAt (CurrentTargets plan) key)
                          (labelsAt (Labels plan) key))"
    by (simp_all add: createSet_def deleteSet_def fun_eq_iff)
  have p: "Changes (Calculate desiredOrder currentOrder plan)
           = policy (Some (diffChanges desiredOrder currentOrder plan))"
    by (simp add: Changes_Calculate assms(1) NewPlan_fields(5))
  have k: "distinct desiredOrder" "set desiredOrder = dom (RecordTargets plan)"
    "distinct currentOrder" "set currentOrder = dom (CurrentTargets plan)"
    using assms(2,3) by (simp_all add: rangeOrder_def)
  show ?thesis
    using p k by (simp add: diffChanges_fields c u d cs [symmetric] ds [symmetric])
qed

theorem Calculate_disjoint_keys_witness:
  "rangeOrder [keyA ''new.com'']
     (RecordTargets (NewPlan ''InternalAlias''
        [regular ''old.com'' ''1.2.3.4'' ''A'' [''owner'' \<mapsto> ''me'']]
        [regular ''new.com'' ''5.6.7.8'' ''A'' Map.empty] (\<lambda>c. c)))
   \<and> rangeOrder [keyA ''old.com'']
     (CurrentTargets (NewPlan ''InternalAlias''
        [regular ''old.com'' ''1.2.3.4'' ''A'' [''owner'' \<mapsto> ''me'']]
        [regular ''new.com'' ''5.6.7.8'' ''A'' Map.empty] (\<lambda>c. c)))
   \<and> dom (RecordTargets (NewPlan ''InternalAlias''
        [regular ''old.com'' ''1.2.3.4'' ''A'' [''owner'' \<mapsto> ''me'']]
        [regular ''new.com'' ''5.6.7.8'' ''A'' Map.empty] (\<lambda>c. c)))
     \<inter> dom (CurrentTargets (NewPlan ''InternalAlias''
        [regular ''old.com'' ''1.2.3.4'' ''A'' [''owner'' \<mapsto> ''me'']]
        [regular ''new.com'' ''5.6.7.8'' ''A'' Map.empty] (\<lambda>c. c))) = {}
   \<and> Changes (Calculate [keyA ''new.com''] [keyA ''old.com'']
        (NewPlan ''InternalAlias''
           [regular ''old.com'' ''1.2.3.4'' ''A'' [''owner'' \<mapsto> ''me'']]
           [regular ''new.com'' ''5.6.7.8'' ''A'' Map.empty] (\<lambda>c. c)))
     = Some \<lparr>Create = [setOf (keyA ''new.com'') [''5.6.7.8''] Map.empty],
             UpdateOld = [], UpdateNew = [],
             Delete = [setOf (keyA ''old.com'') [''1.2.3.4''] [''owner'' \<mapsto> ''me'']]\<rparr>"
proof -
  let ?P = "NewPlan ''InternalAlias''
        [regular ''old.com'' ''1.2.3.4'' ''A'' [''owner'' \<mapsto> ''me'']]
        [regular ''new.com'' ''5.6.7.8'' ''A'' Map.empty] (\<lambda>c. c)"
  have rt: "RecordTargets ?P = [keyA ''new.com'' \<mapsto> [''5.6.7.8'']]"
    and ct: "CurrentTargets ?P = [keyA ''old.com'' \<mapsto> [''1.2.3.4'']]"
    and lb: "Labels ?P = [keyA ''old.com'' \<mapsto> [''owner'' \<mapsto> ''me'']]"
    by (simp_all add: NewPlan_def appendTo_def Let_def regular_def keyA_def)
  have h: "rangeOrder [keyA ''new.com''] (RecordTargets ?P)"
    "rangeOrder [keyA ''old.com''] (CurrentTargets ?P)"
    "dom (RecordTargets ?P) \<inter> dom (CurrentTargets ?P) = {}"
    by (simp_all add: rt ct rangeOrder_def keyA_def)
  from Calculate_disjoint_keys [OF refl h]
  have "Changes (Calculate [keyA ''new.com''] [keyA ''old.com''] ?P)
          = Some (diffChanges [keyA ''new.com''] [keyA ''old.com''] ?P)"
    and "Create (diffChanges [keyA ''new.com''] [keyA ''old.com''] ?P)
          = [setOf (keyA ''new.com'') [''5.6.7.8''] Map.empty]"
    and "Delete (diffChanges [keyA ''new.com''] [keyA ''old.com''] ?P)
          = [setOf (keyA ''old.com'') [''1.2.3.4''] [''owner'' \<mapsto> ''me'']]"
    and "UpdateOld (diffChanges [keyA ''new.com''] [keyA ''old.com''] ?P) = []"
    and "UpdateNew (diffChanges [keyA ''new.com''] [keyA ''old.com''] ?P) = []"
    by (simp_all add: rt ct lb targetsAt_def labelsAt_def)
  then have "Changes (Calculate [keyA ''new.com''] [keyA ''old.com''] ?P)
     = Some \<lparr>Create = [setOf (keyA ''new.com'') [''5.6.7.8''] Map.empty],
             UpdateOld = [], UpdateNew = [],
             Delete = [setOf (keyA ''old.com'') [''1.2.3.4''] [''owner'' \<mapsto> ''me'']]\<rparr>"
    by (simp add: Changes.equality)
  with h show ?thesis by simp
qed

text \<open>
  C1, as the specification states it, fails for the changes of the returned plan: with
  one current endpoint, no desired endpoint and the policy that empties the \<open>Delete\<close>
  list, the keys are disjoint and the current key has no \<open>Delete\<close> entry in the changes
  \<open>Calculate\<close> returns.
\<close>

theorem Calculate_disjoint_keys_policy_counterexample:
  "rangeOrder [] (RecordTargets (NewPlan ''InternalAlias''
       [regular ''old.com'' ''1.2.3.4'' ''A'' Map.empty] [] withoutDelete))
   \<and> rangeOrder [keyA ''old.com''] (CurrentTargets (NewPlan ''InternalAlias''
       [regular ''old.com'' ''1.2.3.4'' ''A'' Map.empty] [] withoutDelete))
   \<and> dom (RecordTargets (NewPlan ''InternalAlias''
       [regular ''old.com'' ''1.2.3.4'' ''A'' Map.empty] [] withoutDelete))
     \<inter> dom (CurrentTargets (NewPlan ''InternalAlias''
       [regular ''old.com'' ''1.2.3.4'' ''A'' Map.empty] [] withoutDelete)) = {}
   \<and> CurrentTargets (NewPlan ''InternalAlias''
       [regular ''old.com'' ''1.2.3.4'' ''A'' Map.empty] [] withoutDelete) (keyA ''old.com'')
     = Some [''1.2.3.4'']
   \<and> Changes (Calculate [] [keyA ''old.com''] (NewPlan ''InternalAlias''
       [regular ''old.com'' ''1.2.3.4'' ''A'' Map.empty] [] withoutDelete))
     = Some \<lparr>Create = [], UpdateOld = [], UpdateNew = [], Delete = []\<rparr>"
  by (simp add: rangeOrder_def NewPlan_def Calculate_def diffChanges_def appendTo_def Let_def
      regular_def keyA_def withoutDelete_def)

text \<open>
  C2. For a key present in both buckets of a plan whose desired and current target
  lists are equal as multisets (one is a permutation of the other, duplicates
  counted), the two loops of \<open>Calculate\<close> append no \<open>Create\<close>, \<open>UpdateOld\<close>, \<open>UpdateNew\<close> or
  \<open>Delete\<close> entry for the key, whatever the order of the visits; and when no policy of
  the plan introduces a record key, the changes of the returned plan hold no entry
  for the key either. The comparison of target lists is the one the specification
  requires of \<open>TargetSliceEquals\<close>.
\<close>

theorem Calculate_equal_targets_no_entry:
  assumes "RecordTargets plan key = Some desired"
    and "CurrentTargets plan key = Some current"
    and "mset desired = mset current"
  shows "key \<notin> set (map setKey (Create (diffChanges desiredOrder currentOrder plan)))
       \<and> key \<notin> set (map setKey (UpdateOld (diffChanges desiredOrder currentOrder plan)))
       \<and> key \<notin> set (map setKey (UpdateNew (diffChanges desiredOrder currentOrder plan)))
       \<and> key \<notin> set (map setKey (Delete (diffChanges desiredOrder currentOrder plan)))
       \<and> Changes (Calculate desiredOrder currentOrder plan)
           = applyPolicies (Policies plan) (Some (diffChanges desiredOrder currentOrder plan))
       \<and> ((\<forall>pol \<in> set (Policies plan). introducesNoKey pol)
            \<longrightarrow> key \<notin> changeKeys (Changes (Calculate desiredOrder currentOrder plan)))"
proof -
  let ?d = "diffChanges desiredOrder currentOrder plan"
  have raw: "key \<notin> set (map setKey (Create ?d))" "key \<notin> set (map setKey (UpdateOld ?d))"
    "key \<notin> set (map setKey (UpdateNew ?d))" "key \<notin> set (map setKey (Delete ?d))"
    using assms
    by (simp_all add: diffChanges_fields toCreate_def toUpdate_def toDelete_def
        targetsAt_def TargetSliceEquals_def)
  then have k: "key \<notin> changeKeys (Some ?d)"
    by (auto simp add: changeKeys_def)
  have "key \<notin> changeKeys (Changes (Calculate desiredOrder currentOrder plan))"
    if "\<forall>pol \<in> set (Policies plan). introducesNoKey pol"
    using applyPolicies_changeKeys [OF that, of "Some ?d"] k
    by (auto simp add: Changes_Calculate)
  with raw show ?thesis
    by (simp add: Changes_Calculate)
qed

theorem Calculate_equal_targets_no_entry_witness:
  "RecordTargets (NewPlan ''InternalAlias''
        [regular ''x.com'' ''1.1.1.1'' ''A'' Map.empty, regular ''x.com'' ''1.1.1.1'' ''A'' Map.empty,
         regular ''x.com'' ''2.2.2.2'' ''A'' Map.empty]
        [regular ''x.com'' ''1.1.1.1'' ''A'' Map.empty, regular ''x.com'' ''2.2.2.2'' ''A'' Map.empty,
         regular ''x.com'' ''1.1.1.1'' ''A'' Map.empty] (\<lambda>c. c)) (keyA ''x.com'')
     = Some [''1.1.1.1'', ''2.2.2.2'', ''1.1.1.1'']
   \<and> CurrentTargets (NewPlan ''InternalAlias''
        [regular ''x.com'' ''1.1.1.1'' ''A'' Map.empty, regular ''x.com'' ''1.1.1.1'' ''A'' Map.empty,
         regular ''x.com'' ''2.2.2.2'' ''A'' Map.empty]
        [regular ''x.com'' ''1.1.1.1'' ''A'' Map.empty, regular ''x.com'' ''2.2.2.2'' ''A'' Map.empty,
         regular ''x.com'' ''1.1.1.1'' ''A'' Map.empty] (\<lambda>c. c)) (keyA ''x.com'')
     = Some [''1.1.1.1'', ''1.1.1.1'', ''2.2.2.2'']
   \<and> mset [''1.1.1.1'', ''2.2.2.2'', ''1.1.1.1''] = mset [''1.1.1.1'', ''1.1.1.1'', ''2.2.2.2'']
   \<and> keyA ''x.com'' \<notin> set (map setKey (UpdateOld (diffChanges [keyA ''x.com''] [keyA ''x.com'']
        (NewPlan ''InternalAlias''
        [regular ''x.com'' ''1.1.1.1'' ''A'' Map.empty, regular ''x.com'' ''1.1.1.1'' ''A'' Map.empty,
         regular ''x.com'' ''2.2.2.2'' ''A'' Map.empty]
        [regular ''x.com'' ''1.1.1.1'' ''A'' Map.empty, regular ''x.com'' ''2.2.2.2'' ''A'' Map.empty,
         regular ''x.com'' ''1.1.1.1'' ''A'' Map.empty] (\<lambda>c. c)))))
   \<and> Changes (Calculate [keyA ''x.com''] [keyA ''x.com'']
        (NewPlan ''InternalAlias''
        [regular ''x.com'' ''1.1.1.1'' ''A'' Map.empty, regular ''x.com'' ''1.1.1.1'' ''A'' Map.empty,
         regular ''x.com'' ''2.2.2.2'' ''A'' Map.empty]
        [regular ''x.com'' ''1.1.1.1'' ''A'' Map.empty, regular ''x.com'' ''2.2.2.2'' ''A'' Map.empty,
         regular ''x.com'' ''1.1.1.1'' ''A'' Map.empty] (\<lambda>c. c)))
     = Some \<lparr>Create = [], UpdateOld = [], UpdateNew = [], Delete = []\<rparr>
   \<and> introducesNoKey (\<lambda>c. c)
   \<and> keyA ''x.com'' \<notin> changeKeys (Changes (Calculate [keyA ''x.com''] [keyA ''x.com'']
        (NewPlan ''InternalAlias''
        [regular ''x.com'' ''1.1.1.1'' ''A'' Map.empty, regular ''x.com'' ''1.1.1.1'' ''A'' Map.empty,
         regular ''x.com'' ''2.2.2.2'' ''A'' Map.empty]
        [regular ''x.com'' ''1.1.1.1'' ''A'' Map.empty, regular ''x.com'' ''2.2.2.2'' ''A'' Map.empty,
         regular ''x.com'' ''1.1.1.1'' ''A'' Map.empty] (\<lambda>c. c))))"
proof -
  let ?P = "NewPlan ''InternalAlias''
        [regular ''x.com'' ''1.1.1.1'' ''A'' Map.empty, regular ''x.com'' ''1.1.1.1'' ''A'' Map.empty,
         regular ''x.com'' ''2.2.2.2'' ''A'' Map.empty]
        [regular ''x.com'' ''1.1.1.1'' ''A'' Map.empty, regular ''x.com'' ''2.2.2.2'' ''A'' Map.empty,
         regular ''x.com'' ''1.1.1.1'' ''A'' Map.empty] (\<lambda>c. c)"
  have rt: "RecordTargets ?P (keyA ''x.com'') = Some [''1.1.1.1'', ''2.2.2.2'', ''1.1.1.1'']"
    and ct: "CurrentTargets ?P (keyA ''x.com'') = Some [''1.1.1.1'', ''1.1.1.1'', ''2.2.2.2'']"
    by (simp_all add: NewPlan_def appendTo_def Let_def regular_def keyA_def)
  have ms: "mset [''1.1.1.1'', ''2.2.2.2'', ''1.1.1.1''] = mset [''1.1.1.1'', ''1.1.1.1'', ''2.2.2.2'']"
    by simp
  have pol: "Policies ?P = [\<lambda>c. c]"
    by (simp add: NewPlan_def split: prod.splits)
  have e: "diffChanges [keyA ''x.com''] [keyA ''x.com''] ?P
             = \<lparr>Create = [], UpdateOld = [], UpdateNew = [], Delete = []\<rparr>"
    by (simp add: diffChanges_def rt ct ms TargetSliceEquals_def)
  have nk: "introducesNoKey (\<lambda>c. c)"
    by (simp add: introducesNoKey_def)
  from Calculate_equal_targets_no_entry [OF rt ct ms, of "[keyA ''x.com'']" "[keyA ''x.com'']"]
  show ?thesis
    using rt ct ms nk by (simp add: pol e changeKeys_def)
qed

text \<open>
  C3. The changes \<open>d\<close> computed by \<open>Calculate\<close> before any policy is applied, for every
  plan and every order of the visits: no key is in two of \<open>Create\<close>, \<open>Delete\<close> and the
  update pairs, and no key occurs twice in one of them; \<open>UpdateOld\<close> and \<open>UpdateNew\<close> have
  the same length and the same key at every position; every update entry carries the
  label snapshot of its key; and a key present in both buckets with different target
  multisets has a position where \<open>UpdateOld\<close> holds its current targets and \<open>UpdateNew\<close>
  its desired targets, both with the label snapshot of the key.
\<close>

theorem Calculate_changes_invariant:
  assumes "rangeOrder desiredOrder (RecordTargets plan)"
    and "rangeOrder currentOrder (CurrentTargets plan)"
    and "d = diffChanges desiredOrder currentOrder plan"
  shows "set (map setKey (Create d)) \<inter> set (map setKey (Delete d)) = {}
       \<and> set (map setKey (Create d)) \<inter> set (map setKey (UpdateOld d)) = {}
       \<and> set (map setKey (Delete d)) \<inter> set (map setKey (UpdateOld d)) = {}
       \<and> distinct (map setKey (Create d))
       \<and> distinct (map setKey (Delete d))
       \<and> distinct (map setKey (UpdateOld d))
       \<and> length (UpdateOld d) = length (UpdateNew d)
       \<and> map setKey (UpdateOld d) = map setKey (UpdateNew d)
       \<and> (\<forall>i < length (UpdateOld d).
             es_Labels (UpdateOld d ! i) = labelsAt (Labels plan) (setKey (UpdateOld d ! i))
           \<and> es_Labels (UpdateNew d ! i) = labelsAt (Labels plan) (setKey (UpdateNew d ! i)))
       \<and> (\<forall>key current desired.
             CurrentTargets plan key = Some current \<and> RecordTargets plan key = Some desired
             \<and> mset current \<noteq> mset desired
             \<longrightarrow> (\<exists>i < length (UpdateOld d).
                    UpdateOld d ! i = setOf key current (labelsAt (Labels plan) key)
                  \<and> UpdateNew d ! i = setOf key desired (labelsAt (Labels plan) key)))"
proof -
  have k: "distinct desiredOrder" "set desiredOrder = dom (RecordTargets plan)"
    "distinct currentOrder" "set currentOrder = dom (CurrentTargets plan)"
    using assms(1,2) by (simp_all add: rangeOrder_def)
  have disj: "set (map setKey (Create d)) \<inter> set (map setKey (Delete d)) = {}"
    "set (map setKey (Create d)) \<inter> set (map setKey (UpdateOld d)) = {}"
    "set (map setKey (Delete d)) \<inter> set (map setKey (UpdateOld d)) = {}"
    unfolding assms(3)
    by (auto simp add: diffChanges_fields toCreate_def toUpdate_def toDelete_def)
  have dist: "distinct (map setKey (Create d))" "distinct (map setKey (Delete d))"
    "distinct (map setKey (UpdateOld d))"
    unfolding assms(3) using k by (simp_all add: diffChanges_fields)
  have pair: "length (UpdateOld d) = length (UpdateNew d)"
    "map setKey (UpdateOld d) = map setKey (UpdateNew d)"
    unfolding assms(3) by (simp_all add: diffChanges_fields)
  have lbl: "es_Labels (UpdateOld d ! i) = labelsAt (Labels plan) (setKey (UpdateOld d ! i))
           \<and> es_Labels (UpdateNew d ! i) = labelsAt (Labels plan) (setKey (UpdateNew d ! i))"
    if "i < length (UpdateOld d)" for i
    using that unfolding assms(3)
    by (simp add: diffChanges_fields) (simp add: updateOldSet_def updateNewSet_def setOf_def)
  have upd: "\<exists>i < length (UpdateOld d).
                    UpdateOld d ! i = setOf key current (labelsAt (Labels plan) key)
                  \<and> UpdateNew d ! i = setOf key desired (labelsAt (Labels plan) key)"
    if h: "CurrentTargets plan key = Some current \<and> RecordTargets plan key = Some desired
             \<and> mset current \<noteq> mset desired" for key current desired
  proof -
    let ?us = "filter (toUpdate plan) desiredOrder"
    have "toUpdate plan key"
      using h by (simp add: toUpdate_def targetsAt_def TargetSliceEquals_def)
    moreover have "key \<in> set desiredOrder"
      using h k(2) by auto
    ultimately have "key \<in> set ?us" by simp
    then obtain i where i: "i < length ?us" "?us ! i = key"
      unfolding in_set_conv_nth by blast
    have "UpdateOld d ! i = updateOldSet plan key" "UpdateNew d ! i = updateNewSet plan key"
      using i unfolding assms(3) by (simp_all add: diffChanges_fields)
    moreover have "length (UpdateOld d) = length ?us"
      unfolding assms(3) by (simp add: diffChanges_fields)
    ultimately show ?thesis
      using i(1) h by (auto simp add: updateOldSet_def updateNewSet_def targetsAt_def)
  qed
  show ?thesis
    using disj dist pair lbl upd by blast
qed

theorem Calculate_changes_invariant_witness:
  "rangeOrder [keyA ''x.com'', keyA ''new.com''] (RecordTargets examplePlan)
   \<and> rangeOrder [keyA ''x.com'', keyA ''old.com''] (CurrentTargets examplePlan)
   \<and> CurrentTargets examplePlan (keyA ''x.com'') = Some [''1.2.3.4'']
   \<and> RecordTargets examplePlan (keyA ''x.com'') = Some [''5.6.7.8'']
   \<and> mset [''1.2.3.4''] \<noteq> mset [''5.6.7.8'']
   \<and> (\<exists>i < length (UpdateOld (diffChanges [keyA ''x.com'', keyA ''new.com'']
                                  [keyA ''x.com'', keyA ''old.com''] examplePlan)).
         UpdateOld (diffChanges [keyA ''x.com'', keyA ''new.com'']
                      [keyA ''x.com'', keyA ''old.com''] examplePlan) ! i
           = setOf (keyA ''x.com'') [''1.2.3.4''] [''owner'' \<mapsto> ''me'']
       \<and> UpdateNew (diffChanges [keyA ''x.com'', keyA ''new.com'']
                      [keyA ''x.com'', keyA ''old.com''] examplePlan) ! i
           = setOf (keyA ''x.com'') [''5.6.7.8''] [''owner'' \<mapsto> ''me''])
   \<and> map setKey (UpdateOld (diffChanges [keyA ''x.com'', keyA ''new.com'']
                      [keyA ''x.com'', keyA ''old.com''] examplePlan))
       = map setKey (UpdateNew (diffChanges [keyA ''x.com'', keyA ''new.com'']
                      [keyA ''x.com'', keyA ''old.com''] examplePlan))"
proof -
  let ?ks = "[keyA ''x.com'', keyA ''new.com'']"
  let ?kc = "[keyA ''x.com'', keyA ''old.com'']"
  let ?d = "diffChanges ?ks ?kc examplePlan"
  have h: "rangeOrder ?ks (RecordTargets examplePlan)"
    "rangeOrder ?kc (CurrentTargets examplePlan)"
    by (simp_all add: rangeOrder_def examplePlan_fields keyA_def insert_commute)
  have v: "CurrentTargets examplePlan (keyA ''x.com'') = Some [''1.2.3.4'']
      \<and> RecordTargets examplePlan (keyA ''x.com'') = Some [''5.6.7.8'']
      \<and> mset [''1.2.3.4''] \<noteq> mset [''5.6.7.8'']"
    by (simp add: examplePlan_fields keyA_def)
  have l: "labelsAt (Labels examplePlan) (keyA ''x.com'') = [''owner'' \<mapsto> ''me'']"
    by (simp add: examplePlan_fields labelsAt_def keyA_def)
  note th = Calculate_changes_invariant [OF h refl]
  from th have pair: "map setKey (UpdateOld ?d) = map setKey (UpdateNew ?d)"
    by (elim conjE)
  from th have "\<forall>key current desired.
             CurrentTargets examplePlan key = Some current
             \<and> RecordTargets examplePlan key = Some desired
             \<and> mset current \<noteq> mset desired
             \<longrightarrow> (\<exists>i < length (UpdateOld ?d).
                    UpdateOld ?d ! i = setOf key current (labelsAt (Labels examplePlan) key)
                  \<and> UpdateNew ?d ! i = setOf key desired (labelsAt (Labels examplePlan) key))"
    by (elim conjE)
  from this [rule_format, OF v]
  have upd: "\<exists>i < length (UpdateOld ?d).
         UpdateOld ?d ! i = setOf (keyA ''x.com'') [''1.2.3.4''] [''owner'' \<mapsto> ''me'']
       \<and> UpdateNew ?d ! i = setOf (keyA ''x.com'') [''5.6.7.8''] [''owner'' \<mapsto> ''me'']"
    unfolding l .
  show ?thesis
    using h v pair upd by (intro conjI) (elim conjE, assumption)+
qed

text \<open>
  C9. \<open>Calculate\<close> applies the policies of the plan from left to right: the changes of
  the returned plan are the left fold of the policy list over the computed changes.
  With no policy they are the computed changes, and with one more policy at the end
  of the list they are what that policy returns for the changes under the list
  before it.
\<close>

theorem Calculate_policies_fold:
  "Changes (Calculate desiredOrder currentOrder plan)
     = foldl (\<lambda>changes pol. pol changes)
         (Some (diffChanges desiredOrder currentOrder plan)) (Policies plan)
   \<and> Changes (Calculate desiredOrder currentOrder (plan\<lparr>Policies := []\<rparr>))
       = Some (diffChanges desiredOrder currentOrder plan)
   \<and> Changes (Calculate desiredOrder currentOrder (plan\<lparr>Policies := policies @ [pol]\<rparr>))
       = pol (Changes (Calculate desiredOrder currentOrder (plan\<lparr>Policies := policies\<rparr>)))"
  by (simp add: Changes_Calculate applyPolicies_foldl)

section \<open>Calculate leaves its receiver as it was\<close>

text \<open>
  C10. A call of \<open>Calculate\<close> on a receiver that points to a plan returns a pointer to
  a new plan, different from the receiver, and leaves every plan of the store as it
  was: the six fields of the receiver are unchanged (a nil \<open>Changes\<close> stays nil). The new
  plan carries the changes returned by the policies and an empty policy list, so a
  further \<open>Calculate\<close> on it applies no policy.
\<close>

theorem CalculateAt_frame:
  assumes "p < length st"
  shows "\<exists>q st'. CalculateAt desiredOrder currentOrder p st = Some (q, st')
       \<and> q \<noteq> p \<and> q = length st \<and> length st' = Suc (length st)
       \<and> (\<forall>a < length st. st' ! a = st ! a)
       \<and> Aliases (st' ! p) = Aliases (st ! p)
       \<and> Labels (st' ! p) = Labels (st ! p)
       \<and> CurrentTargets (st' ! p) = CurrentTargets (st ! p)
       \<and> RecordTargets (st' ! p) = RecordTargets (st ! p)
       \<and> Policies (st' ! p) = Policies (st ! p)
       \<and> Changes (st' ! p) = Changes (st ! p)
       \<and> Changes (st' ! q)
           = applyPolicies (Policies (st ! p))
               (Some (diffChanges desiredOrder currentOrder (st ! p)))
       \<and> Policies (st' ! q) = []
       \<and> (\<forall>desiredOrder' currentOrder'.
            Changes (Calculate desiredOrder' currentOrder' (st' ! q))
              = Some (diffChanges desiredOrder' currentOrder' (st' ! q)))"
  using assms
  by (simp add: CalculateAt_def nth_append Changes_Calculate) (simp add: Calculate_def)

theorem CalculateAt_frame_witness:
  "(0::nat) < length [examplePlan]
   \<and> (\<exists>q st'. CalculateAt [keyA ''x.com'', keyA ''new.com''] [keyA ''x.com'', keyA ''old.com'']
                 0 [examplePlan] = Some (q, st')
        \<and> q = 1
        \<and> st' ! 0 = examplePlan
        \<and> Changes (st' ! 0) = None
        \<and> Policies (st' ! 0) = [withoutDelete]
        \<and> Policies (st' ! q) = []
        \<and> Changes (st' ! q)
            = Some \<lparr>Create = [setOf (keyA ''new.com'') [''7.7.7.7''] Map.empty],
                UpdateOld = [setOf (keyA ''x.com'') [''1.2.3.4''] [''owner'' \<mapsto> ''me'']],
                UpdateNew = [setOf (keyA ''x.com'') [''5.6.7.8''] [''owner'' \<mapsto> ''me'']],
                Delete = []\<rparr>)"
proof -
  let ?ks = "[keyA ''x.com'', keyA ''new.com'']"
  let ?kc = "[keyA ''x.com'', keyA ''old.com'']"
  have h: "(0::nat) < length [examplePlan]" by simp
  from CalculateAt_frame [OF h, of ?ks ?kc]
  obtain q st' where r: "CalculateAt ?ks ?kc 0 [examplePlan] = Some (q, st')"
    "q = length [examplePlan]"
    "\<forall>a < length [examplePlan]. st' ! a = [examplePlan] ! a"
    "Changes (st' ! q) = applyPolicies (Policies ([examplePlan] ! 0))
               (Some (diffChanges ?ks ?kc ([examplePlan] ! 0)))"
    "Policies (st' ! q) = []"
    by blast
  have "st' ! 0 = examplePlan"
    using r(3) by simp
  moreover have "Changes (st' ! q)
            = Some \<lparr>Create = [setOf (keyA ''new.com'') [''7.7.7.7''] Map.empty],
                UpdateOld = [setOf (keyA ''x.com'') [''1.2.3.4''] [''owner'' \<mapsto> ''me'']],
                UpdateNew = [setOf (keyA ''x.com'') [''5.6.7.8''] [''owner'' \<mapsto> ''me'']],
                Delete = []\<rparr>"
    using r(4) by (simp add: examplePlan_fields examplePlan_diff withoutDelete_def)
  ultimately show ?thesis
    using r(1,2,5) by (simp add: examplePlan_fields)
qed

section \<open>The ownership filter keeps the sets labelled with the owner\<close>

lemma Create_unlabelled:
  "\<forall>es \<in> set (Create (diffChanges ks kc plan)). es_Labels es = Map.empty"
  by (simp add: diffChanges_fields createSet_def setOf_def)

lemma filterOwnedRecords_filter:
  "filterOwnedRecords k oid sets = filter (\<lambda>es. es_Labels es k = Some oid) sets"
  by (induction sets) (auto split: option.splits)

text \<open>
  C4, as the code has it. The filter keeps a set only when the owner label is present
  and equal to the owner: a set without the owner label is dropped whatever the owner
  is, the empty string included. On sets none of which carries the owner label, and so
  on sets with empty labels, the filter returns the empty list; the \<open>Create\<close> list
  computed by \<open>Calculate\<close>, whose sets have no labels by construction, is such a list.
\<close>

theorem filterOwnedRecords_unlabelled:
  assumes "\<forall>es \<in> set sets. es_Labels es ownerLabelKey = None"
  shows "filterOwnedRecords ownerLabelKey ownerID sets = []
       \<and> filterOwnedRecords ownerLabelKey ownerID
            (Create (diffChanges desiredOrder currentOrder plan)) = []"
proof -
  have "\<forall>es \<in> set (Create (diffChanges desiredOrder currentOrder plan)).
          es_Labels es ownerLabelKey = None"
    using Create_unlabelled [of desiredOrder currentOrder plan] by simp
  then show ?thesis
    using assms by (simp add: filterOwnedRecords_filter filter_empty_conv)
qed

theorem filterOwnedRecords_unlabelled_witness:
  "es_Labels (setOf (keyA ''x.com'') [''1.2.3.4''] Map.empty) ''owner'' = None
   \<and> filterOwnedRecords ''owner'' '''' [setOf (keyA ''x.com'') [''1.2.3.4''] Map.empty] = []
   \<and> Create (diffChanges [keyA ''x.com'', keyA ''new.com''] [keyA ''x.com'', keyA ''old.com'']
         examplePlan) = [setOf (keyA ''new.com'') [''7.7.7.7''] Map.empty]
   \<and> filterOwnedRecords ''owner'' ''''
        (Create (diffChanges [keyA ''x.com'', keyA ''new.com''] [keyA ''x.com'', keyA ''old.com'']
           examplePlan)) = []"
  using filterOwnedRecords_unlabelled
    [of "[setOf (keyA ''x.com'') [''1.2.3.4''] Map.empty]" "''owner''" "''''"
        "[keyA ''x.com'', keyA ''new.com'']" "[keyA ''x.com'', keyA ''old.com'']" examplePlan]
  by (simp add: setOf_def examplePlan_diff)

text \<open>
  C4, as the specification states it, fails: with the empty owner and one set without
  labels the filter does not return its input.
\<close>

theorem filterOwnedRecords_empty_owner_counterexample:
  "es_Labels (setOf \<lparr>RecordType = ''A'', DNSName = ''x.com''\<rparr> [''1.2.3.4''] Map.empty)
      ''owner'' = None
   \<and> filterOwnedRecords ''owner'' ''''
        [setOf \<lparr>RecordType = ''A'', DNSName = ''x.com''\<rparr> [''1.2.3.4''] Map.empty]
      \<noteq> [setOf \<lparr>RecordType = ''A'', DNSName = ''x.com''\<rparr> [''1.2.3.4''] Map.empty]"
  by (simp add: setOf_def)

text \<open>
  C5. On sets that all carry the owner label the filter returns, in the order of the
  input, exactly the sets whose owner label equals the owner: a set with a matching
  label is kept, a set with another label is dropped, and the result is a list in
  every case (no error value exists).
\<close>

theorem filterOwnedRecords_labelled:
  assumes "\<forall>es \<in> set sets. es_Labels es ownerLabelKey \<noteq> None"
  shows "filterOwnedRecords ownerLabelKey ownerID sets =
           filter (\<lambda>es. es_Labels es ownerLabelKey = Some ownerID) sets
         \<and> (\<forall>es \<in> set sets. es_Labels es ownerLabelKey = Some ownerID
               \<longrightarrow> es \<in> set (filterOwnedRecords ownerLabelKey ownerID sets))
         \<and> (\<forall>es \<in> set sets. es_Labels es ownerLabelKey \<noteq> Some ownerID
               \<longrightarrow> es \<notin> set (filterOwnedRecords ownerLabelKey ownerID sets))"
  by (simp add: filterOwnedRecords_filter)

theorem filterOwnedRecords_labelled_witness:
  "es_Labels (setOf \<lparr>RecordType = ''A'', DNSName = ''mine.com''\<rparr> [''1.2.3.4'']
                [''owner'' \<mapsto> ''me'']) ''owner'' = Some ''me''
   \<and> es_Labels (setOf \<lparr>RecordType = ''A'', DNSName = ''theirs.com''\<rparr> [''5.6.7.8'']
                [''owner'' \<mapsto> ''you'']) ''owner'' = Some ''you''
   \<and> filterOwnedRecords ''owner'' ''me''
       [setOf \<lparr>RecordType = ''A'', DNSName = ''mine.com''\<rparr> [''1.2.3.4'']
          [''owner'' \<mapsto> ''me''],
        setOf \<lparr>RecordType = ''A'', DNSName = ''theirs.com''\<rparr> [''5.6.7.8'']
          [''owner'' \<mapsto> ''you'']]
     = [setOf \<lparr>RecordType = ''A'', DNSName = ''mine.com''\<rparr> [''1.2.3.4'']
          [''owner'' \<mapsto> ''me'']]"
  using filterOwnedRecords_labelled
    [of "[setOf \<lparr>RecordType = ''A'', DNSName = ''mine.com''\<rparr> [''1.2.3.4'']
            [''owner'' \<mapsto> ''me''],
          setOf \<lparr>RecordType = ''A'', DNSName = ''theirs.com''\<rparr> [''5.6.7.8'']
            [''owner'' \<mapsto> ''you'']]"
        "''owner''" "''me''"]
  by (simp add: setOf_def)

end
